theory Spec2Isabelle
  imports Main
begin

section \<open>Integration sync tasks of \<^verbatim>\<open>sentry/tasks/integrations.py\<close>\<close>

text \<open>
  A shallow embedding of the eight Celery tasks of
  \<^verbatim>\<open>src/sentry/tasks/integrations.py\<close>. The database is a record of
  tables (lists of rows), the external collaborators (feature flags, installations and
  their clients, the migrator, the clock) are an environment of functions, and every
  effect the tasks have on the outside (installation and client calls, analytics
  records, log entries, row saves, submitted jobs) is appended to the state. A Python
  exception is the \<open>Raised\<close> outcome, which keeps the state reached when it was
  raised.
\<close>

subsection \<open>Entities\<close>

record organization =
  org_id :: int
  org_slug :: string

record external_issue =
  ei_id :: int
  ei_organization_id :: int
  ei_integration_id :: int
  ei_key :: string

text \<open>
  \<^verbatim>\<open>Integration.metadata\<close> is a dictionary. The tasks read only its
  \<^verbatim>\<open>'subscription'\<close> entry, itself a dictionary with the keys
  \<^verbatim>\<open>'id'\<close> and \<^verbatim>\<open>'check'\<close>; an absent key is \<open>None\<close>, where
  Python raises \<^verbatim>\<open>KeyError\<close>. Timestamps are seconds.
\<close>

record subscription =
  sub_id :: "string option"
  sub_check :: "int option"

record metadata =
  md_subscription :: "subscription option"
  md_other :: "(string \<times> string) list"

record integration =
  int_id :: int
  int_provider :: string
  int_metadata :: metadata

record user =
  usr_id :: int

record group =
  grp_id :: int
  grp_status :: int
  grp_project_id :: int
  grp_organization :: organization

record group_link =
  gl_project_id :: int
  gl_group_id :: int
  gl_linked_type :: int
  gl_linked_id :: int

record repository =
  repo_id :: int
  repo_integration_id :: "int option"
  repo_provider :: "string option"
  repo_status :: int

record organization_integration =
  oi_organization_id :: int
  oi_integration_id :: int

subsection \<open>Exceptions\<close>

datatype entity = ExternalIssue | Integration | User | Organization | Repository

datatype error =
    DoesNotExist entity
  | IntegrationError
  | ApiError
  | ApiUnauthorized
  | KeyError
  | IndexError
  | AttributeError
  | OtherError string

subsection \<open>External collaborators\<close>

text \<open>
  A provider client and an installation are objects of the integration provider. Their
  queries return a value; their side-effecting calls return \<open>None\<close> or the exception
  they raise.
\<close>

record client =
  get_subscription :: "string \<Rightarrow> string \<Rightarrow> error + (string \<rightharpoonup> string)"
  update_subscription :: "string \<Rightarrow> string \<Rightarrow> error option"

record installation =
  should_sync :: "string \<Rightarrow> bool"
  create_comment :: "string \<Rightarrow> int \<Rightarrow> string \<Rightarrow> error option"
  inst_sync_assignee_outbound :: "external_issue \<Rightarrow> user option \<Rightarrow> bool \<Rightarrow> error option"
  inst_sync_status_outbound :: "external_issue \<Rightarrow> bool \<Rightarrow> int \<Rightarrow> error option"
  inst_sync_metadata :: "error option"
  has_repo_access :: "repository \<Rightarrow> bool"
  inst_instance :: string
  get_client :: client

text \<open>
  The constants \<^verbatim>\<open>GroupStatus.UNRESOLVED\<close>, \<^verbatim>\<open>GroupStatus.RESOLVED\<close>,
  \<^verbatim>\<open>GroupLink.LinkedType.issue\<close>, \<^verbatim>\<open>ObjectStatus.DISABLED\<close> and
  \<^verbatim>\<open>ObjectStatus.VISIBLE\<close> are declared in \<^verbatim>\<open>sentry.models\<close>, outside this
  file: they are parameters of the environment.
\<close>

record env =
  features_has :: "string \<Rightarrow> organization \<Rightarrow> bool"
  get_installation :: "integration \<Rightarrow> int option \<Rightarrow> installation"
  migrator_run :: "integration \<Rightarrow> organization \<Rightarrow> error option"
  datetime_now :: int
  GroupStatus_UNRESOLVED :: int
  GroupStatus_RESOLVED :: int
  LinkedType_issue :: int
  ObjectStatus_DISABLED :: int
  ObjectStatus_VISIBLE :: int

subsection \<open>State and effects\<close>

datatype event =
    CreateComment string int string
  | SyncAssigneeOutbound external_issue "user option" bool
  | SyncStatusOutbound external_issue bool int
  | SyncMetadata int
  | ShouldSync string
  | HasRepoAccess int
  | AnalyticsRecord string string int int "int option"
  | LoggerInfo string "(string \<times> int) list"
  | RepositorySave repository
  | IntegrationSave integration
  | MigratorRun integration organization
  | GetSubscription string string
  | UpdateSubscription string string

datatype job =
    SyncStatusOutboundJob int int
  | VstsSubscriptionCheckJob integration int

record world =
  external_issues :: "external_issue list"
  organizations :: "organization list"
  integrations :: "integration list"
  users :: "user list"
  groups :: "group list"
  group_links :: "group_link list"
  repositories :: "repository list"
  organization_integrations :: "organization_integration list"
  trace :: "event list"
  submitted :: "job list"

datatype outcome = Returned world | Raised error world

fun final :: "outcome \<Rightarrow> world" where
  "final (Returned w) = w"
| "final (Raised e w) = w"

definition emit :: "event \<Rightarrow> world \<Rightarrow> world" where
  "emit ev w = w\<lparr>trace := trace w @ [ev]\<rparr>"

definition apply_async :: "job \<Rightarrow> world \<Rightarrow> world" where
  "apply_async j w = w\<lparr>submitted := submitted w @ [j]\<rparr>"

text \<open>\<^verbatim>\<open>Model.objects.get(id=k)\<close>: the row with that id, or \<^verbatim>\<open>DoesNotExist\<close>.\<close>

definition objects_get :: "('a \<Rightarrow> int) \<Rightarrow> 'a list \<Rightarrow> int \<Rightarrow> 'a option" where
  "objects_get idf rows k = find (\<lambda>r. idf r = k) rows"

text \<open>\<^verbatim>\<open>row.save()\<close>: the stored row with the object's id takes the object's fields.\<close>

definition objects_save :: "('a \<Rightarrow> int) \<Rightarrow> 'a \<Rightarrow> 'a list \<Rightarrow> 'a list" where
  "objects_save idf row rows =
     (if list_ex (\<lambda>r. idf r = idf row) rows
      then map (\<lambda>r. if idf r = idf row then row else r) rows
      else rows @ [row])"

definition issue_sync_flag :: string where
  "issue_sync_flag = ''organizations:integrations-issue-sync''"

subsection \<open>The sync tasks\<close>

text \<open>\<^verbatim>\<open>post_comment\<close>, source lines 27-49.\<close>

definition post_comment :: "env \<Rightarrow> int \<Rightarrow> (string \<rightharpoonup> string) \<Rightarrow> int \<Rightarrow> world \<Rightarrow> outcome" where
  "post_comment env external_issue_id data uid w =
     (case objects_get ei_id (external_issues w) external_issue_id of
        None \<Rightarrow> Raised (DoesNotExist ExternalIssue) w
      | Some external_issue \<Rightarrow>
        (case objects_get org_id (organizations w) (ei_organization_id external_issue) of
           None \<Rightarrow> Raised (DoesNotExist Organization) w
         | Some organization \<Rightarrow>
           if \<not> features_has env issue_sync_flag organization then Returned w
           else
             (case objects_get int_id (integrations w) (ei_integration_id external_issue) of
                None \<Rightarrow> Raised (DoesNotExist Integration) w
              | Some integration \<Rightarrow>
                let installation =
                      get_installation env integration (Some (ei_organization_id external_issue));
                    w0 = emit (ShouldSync ''comment'') w
                in
                  if should_sync installation ''comment'' then
                    (case data ''text'' of
                       None \<Rightarrow> Raised KeyError w0
                     | Some body \<Rightarrow>
                       let w1 = emit (CreateComment (ei_key external_issue) uid body) w0 in
                         (case create_comment installation (ei_key external_issue) uid body of
                            Some e \<Rightarrow> Raised e w1
                          | None \<Rightarrow>
                            Returned
                              (emit (AnalyticsRecord ''integration.issue.comments.synced''
                                       (int_provider integration) (int_id integration)
                                       (ei_organization_id external_issue) (Some uid)) w1)))
                  else Returned w0)))"

text \<open>\<^verbatim>\<open>sync_metadata\<close>, source lines 59-62.\<close>

definition sync_metadata :: "env \<Rightarrow> int \<Rightarrow> world \<Rightarrow> outcome" where
  "sync_metadata env integration_id w =
     (case objects_get int_id (integrations w) integration_id of
        None \<Rightarrow> Raised (DoesNotExist Integration) w
      | Some integration \<Rightarrow>
        let installation = get_installation env integration None;
            w1 = emit (SyncMetadata (int_id integration)) w
        in (case inst_sync_metadata installation of
              Some e \<Rightarrow> Raised e w1
            | None \<Rightarrow> Returned w1))"

text \<open>\<^verbatim>\<open>sync_assignee_outbound\<close>, source lines 73-101.\<close>

definition sync_assignee_outbound :: "env \<Rightarrow> int \<Rightarrow> int option \<Rightarrow> bool \<Rightarrow> world \<Rightarrow> outcome" where
  "sync_assignee_outbound env external_issue_id uid assign w =
     (case objects_get ei_id (external_issues w) external_issue_id of
        None \<Rightarrow> Raised (DoesNotExist ExternalIssue) w
      | Some external_issue \<Rightarrow>
        (case objects_get org_id (organizations w) (ei_organization_id external_issue) of
           None \<Rightarrow> Raised (DoesNotExist Organization) w
         | Some organization \<Rightarrow>
           if \<not> features_has env issue_sync_flag organization then Returned w
           else
             (case objects_get int_id (integrations w) (ei_integration_id external_issue) of
                None \<Rightarrow> Raised (DoesNotExist Integration) w
              | Some integration \<Rightarrow>
                (case (case uid of
                         None \<Rightarrow> Inr None
                       | Some u \<Rightarrow>
                         (case objects_get usr_id (users w) u of
                            None \<Rightarrow> Inl (DoesNotExist User)
                          | Some usr \<Rightarrow> Inr (Some usr))) of
                   Inl e \<Rightarrow> Raised e w
                 | Inr usr \<Rightarrow>
                   let installation =
                         get_installation env integration (Some (ei_organization_id external_issue));
                       w0 = emit (ShouldSync ''outbound_assignee'') w
                   in
                     if should_sync installation ''outbound_assignee'' then
                       let w1 = emit (SyncAssigneeOutbound external_issue usr assign) w0 in
                         (case inst_sync_assignee_outbound installation external_issue usr assign of
                            Some e \<Rightarrow> Raised e w1
                          | None \<Rightarrow>
                            Returned
                              (emit (AnalyticsRecord ''integration.issue.assignee.synced''
                                       (int_provider integration) (int_id integration)
                                       (ei_organization_id external_issue) None) w1))
                     else Returned w0))))"

text \<open>
  \<^verbatim>\<open>sync_status_outbound\<close>, source lines 111-139. The group is the first row of
  the filtered query; \<^verbatim>\<open>[0]\<close> on an empty result raises \<^verbatim>\<open>IndexError\<close>,
  which the task catches and returns.
\<close>

definition group_query :: "env \<Rightarrow> int \<Rightarrow> world \<Rightarrow> group list" where
  "group_query env group_id w =
     filter (\<lambda>g. grp_id g = group_id \<and>
                 (grp_status g = GroupStatus_UNRESOLVED env \<or>
                  grp_status g = GroupStatus_RESOLVED env))
       (groups w)"

definition first_row :: "'a list \<Rightarrow> error + 'a" where
  "first_row rows = (case rows of [] \<Rightarrow> Inl IndexError | r # _ \<Rightarrow> Inr r)"

definition sync_status_outbound :: "env \<Rightarrow> int \<Rightarrow> int \<Rightarrow> world \<Rightarrow> outcome" where
  "sync_status_outbound env group_id external_issue_id w =
     (case first_row (group_query env group_id w) of
        Inl e \<Rightarrow> (if e = IndexError then Returned w else Raised e w)
      | Inr grp \<Rightarrow>
        if \<not> features_has env issue_sync_flag (grp_organization grp) then Returned w
        else
          (case objects_get ei_id (external_issues w) external_issue_id of
             None \<Rightarrow> Raised (DoesNotExist ExternalIssue) w
           | Some external_issue \<Rightarrow>
             (case objects_get int_id (integrations w) (ei_integration_id external_issue) of
                None \<Rightarrow> Raised (DoesNotExist Integration) w
              | Some integration \<Rightarrow>
                let installation =
                      get_installation env integration (Some (ei_organization_id external_issue));
                    w0 = emit (ShouldSync ''outbound_status'') w
                in
                  if should_sync installation ''outbound_status'' then
                    let resolved = (grp_status grp = GroupStatus_RESOLVED env);
                        w1 = emit (SyncStatusOutbound external_issue resolved (grp_project_id grp)) w0
                    in
                      (case inst_sync_status_outbound installation external_issue resolved
                              (grp_project_id grp) of
                         Some e \<Rightarrow> Raised e w1
                       | None \<Rightarrow>
                         Returned
                           (emit (AnalyticsRecord ''integration.issue.status.synced''
                                    (int_provider integration) (int_id integration)
                                    (ei_organization_id external_issue) None) w1))
                  else Returned w0)))"

text \<open>
  \<^verbatim>\<open>kick_off_status_syncs\<close>, source lines 149-164: the loop submits one job per
  linked id of the query, in the query's order.
\<close>

definition linked_issue_ids :: "env \<Rightarrow> int \<Rightarrow> int \<Rightarrow> world \<Rightarrow> int list" where
  "linked_issue_ids env project_id group_id w =
     map gl_linked_id
       (filter (\<lambda>l. gl_project_id l = project_id \<and> gl_group_id l = group_id \<and>
                    gl_linked_type l = LinkedType_issue env)
          (group_links w))"

fun submit_status_syncs :: "int \<Rightarrow> int list \<Rightarrow> world \<Rightarrow> world" where
  "submit_status_syncs group_id [] w = w"
| "submit_status_syncs group_id (external_issue_id # rest) w =
     submit_status_syncs group_id rest
       (apply_async (SyncStatusOutboundJob group_id external_issue_id) w)"

definition kick_off_status_syncs :: "env \<Rightarrow> int \<Rightarrow> int \<Rightarrow> world \<Rightarrow> outcome" where
  "kick_off_status_syncs env project_id group_id w =
     Returned (submit_status_syncs group_id (linked_issue_ids env project_id group_id w) w)"

text \<open>
  \<^verbatim>\<open>migrate_repo\<close>, source lines 174-211. The organization is looked up as an
  argument of \<^verbatim>\<open>Migrator.run\<close>, after the repository has been saved.
\<close>

definition migrate_repo :: "env \<Rightarrow> int \<Rightarrow> int \<Rightarrow> int \<Rightarrow> world \<Rightarrow> outcome" where
  "migrate_repo env rid integration_id organization_id w =
     (case objects_get int_id (integrations w) integration_id of
        None \<Rightarrow> Raised (DoesNotExist Integration) w
      | Some integration \<Rightarrow>
        let installation = get_installation env integration (Some organization_id) in
          (case objects_get repo_id (repositories w) rid of
             None \<Rightarrow> Raised (DoesNotExist Repository) w
           | Some repo \<Rightarrow>
             let w0 = emit (HasRepoAccess (repo_id repo)) w in
               if has_repo_access installation repo then
                 let w1 = (case repo_integration_id repo of
                             None \<Rightarrow> w0
                           | Some old \<Rightarrow>
                             if old \<noteq> integration_id then
                               emit (LoggerInfo ''repo.migration.integration-change''
                                       [(''integration_id'', integration_id),
                                        (''old_integration_id'', old),
                                        (''organization_id'', organization_id),
                                        (''repo_id'', repo_id repo)]) w0
                             else w0);
                     repo1 = repo\<lparr>repo_integration_id := Some integration_id,
                                  repo_provider := Some (''integrations:'' @ int_provider integration)\<rparr>;
                     repo2 = (if repo_status repo1 = ObjectStatus_DISABLED env
                              then repo1\<lparr>repo_status := ObjectStatus_VISIBLE env\<rparr>
                              else repo1);
                     w2 = emit (RepositorySave repo2)
                            (w1\<lparr>repositories := objects_save repo_id repo2 (repositories w1)\<rparr>);
                     w3 = emit (LoggerInfo ''repo.migrated''
                                  [(''integration_id'', integration_id),
                                   (''organization_id'', organization_id),
                                   (''repo_id'', repo_id repo)]) w2
                 in
                   (case objects_get org_id (organizations w3) organization_id of
                      None \<Rightarrow> Raised (DoesNotExist Organization) w3
                    | Some organization \<Rightarrow>
                      let w4 = emit (MigratorRun integration organization) w3 in
                        (case migrator_run env integration organization of
                           Some e \<Rightarrow> Raised e w4
                         | None \<Rightarrow> Returned w4))
               else Returned w0))"

subsection \<open>The subscription sweep\<close>

text \<open>
  \<^verbatim>\<open>vsts_subscription_check\<close>, source lines 256-273. The task mutates the
  integration object it is given, so the model returns the object as the task leaves
  it, beside the outcome.
\<close>

definition vsts_subscription_check ::
    "env \<Rightarrow> integration \<Rightarrow> int \<Rightarrow> world \<Rightarrow> integration \<times> outcome" where
  "vsts_subscription_check env integration organization_id w =
     (let installation = get_installation env integration (Some organization_id);
          cl = get_client installation
      in
        case md_subscription (int_metadata integration) of
          None \<Rightarrow> (integration, Raised KeyError w)
        | Some sub \<Rightarrow>
          (case sub_id sub of
             None \<Rightarrow> (integration, Raised KeyError w)
           | Some subscription_id \<Rightarrow>
             let w1 = emit (GetSubscription (inst_instance installation) subscription_id) w in
               (case get_subscription cl (inst_instance installation) subscription_id of
                  Inl e \<Rightarrow> (integration, Raised e w1)
                | Inr live \<Rightarrow>
                  (case live ''status'' of
                     None \<Rightarrow> (integration, Raised KeyError w1)
                   | Some st \<Rightarrow>
                     if st = ''disabledBySystem'' then
                       let w2 = emit (UpdateSubscription (inst_instance installation)
                                        subscription_id) w1
                       in
                         (case update_subscription cl (inst_instance installation)
                                 subscription_id of
                            Some e \<Rightarrow> (integration, Raised e w2)
                          | None \<Rightarrow>
                            let integration' =
                                  integration\<lparr>int_metadata :=
                                    (int_metadata integration)\<lparr>md_subscription :=
                                      Some (sub\<lparr>sub_check := Some (datetime_now env)\<rparr>)\<rparr>\<rparr>;
                                w3 = emit (IntegrationSave integration')
                                       (w2\<lparr>integrations :=
                                              objects_save int_id integration' (integrations w2)\<rparr>)
                            in (integration', Returned w3))
                     else (integration, Returned w1)))))"

text \<open>
  \<^verbatim>\<open>kickoff_vsts_subscription_check\<close>, source lines 220-246. The query joins each
  \<^verbatim>\<open>OrganizationIntegration\<close> row with its integration and keeps the rows whose
  integration has provider \<^verbatim>\<open>'vsts'\<close>.
\<close>

definition timedelta_hours :: "int \<Rightarrow> int" where
  "timedelta_hours h = h * 3600"

definition vsts_organization_integrations ::
    "world \<Rightarrow> (organization_integration \<times> integration) list" where
  "vsts_organization_integrations w =
     concat (map (\<lambda>oi. case objects_get int_id (integrations w) (oi_integration_id oi) of
                          None \<Rightarrow> []
                        | Some i \<Rightarrow> if int_provider i = ''vsts'' then [(oi, i)] else [])
               (organization_integrations w))"

text \<open>
  Source lines 230-239, the two \<^verbatim>\<open>try\<close> blocks of the loop body: the loop goes on
  to line 241 when the metadata has a subscription whose \<^verbatim>\<open>'check'\<close> is absent or
  not later than \<open>update_interval\<close>, and \<^verbatim>\<open>continue\<close>s otherwise.
\<close>

definition check_is_due :: "int \<Rightarrow> integration \<Rightarrow> bool" where
  "check_is_due update_interval integration =
     (case md_subscription (int_metadata integration) of
        None \<Rightarrow> False
      | Some sub \<Rightarrow>
        (case sub_check sub of
           None \<Rightarrow> True
         | Some c \<Rightarrow> \<not> c > update_interval))"

text \<open>
  Source line 241 is
  \<^verbatim>\<open>vsts_subscription_check(integration, organization_id).apply_async(kwargs=...)\<close>:
  the expression calls the task in place, with the two positional arguments, and then
  reads the attribute \<^verbatim>\<open>apply_async\<close> of what the call returned. The task has no
  \<^verbatim>\<open>return\<close> statement, so a call that does not raise returns \<^verbatim>\<open>None\<close> and
  the attribute access raises \<^verbatim>\<open>AttributeError\<close>; a call that raises leaves the
  loop with that exception. Either way the loop ends at the first due integration.
\<close>

fun sweep_loop ::
    "env \<Rightarrow> int \<Rightarrow> (organization_integration \<times> integration) list \<Rightarrow> world \<Rightarrow> outcome" where
  "sweep_loop env update_interval [] w = Returned w"
| "sweep_loop env update_interval ((org_integration, integration) # rest) w =
     (if \<not> check_is_due update_interval integration
      then sweep_loop env update_interval rest w
      else
        (case snd (vsts_subscription_check env integration
                     (oi_organization_id org_integration) w) of
           Raised e w' \<Rightarrow> Raised e w'
         | Returned w' \<Rightarrow> Raised AttributeError w'))"

definition kickoff_vsts_subscription_check :: "env \<Rightarrow> world \<Rightarrow> outcome" where
  "kickoff_vsts_subscription_check env w =
     (let update_interval = datetime_now env - timedelta_hours 6
      in sweep_loop env update_interval (vsts_organization_integrations w) w)"

subsection \<open>Retry policy and dispatch\<close>










subsection \<open>A concrete deployment\<close>

text \<open>
  One organization with one VSTS integration, one linked external issue, one group and
  one disabled repository; the constants of \<^verbatim>\<open>sentry.models\<close> are given
  sample values.
\<close>

definition demo_org :: organization where
  "demo_org = \<lparr>org_id = 1, org_slug = ''acme''\<rparr>"

definition demo_issue :: external_issue where
  "demo_issue = \<lparr>ei_id = 10, ei_organization_id = 1, ei_integration_id = 7, ei_key = ''APP-1''\<rparr>"

definition demo_subscription :: "int option \<Rightarrow> subscription" where
  "demo_subscription c = \<lparr>sub_id = Some ''s1'', sub_check = c\<rparr>"

definition demo_integration :: "int option \<Rightarrow> integration" where
  "demo_integration c =
     \<lparr>int_id = 7, int_provider = ''vsts'',
      int_metadata = \<lparr>md_subscription = Some (demo_subscription c), md_other = []\<rparr>\<rparr>"

definition demo_user :: user where
  "demo_user = \<lparr>usr_id = 5\<rparr>"

definition demo_group :: "int \<Rightarrow> group" where
  "demo_group st = \<lparr>grp_id = 20, grp_status = st, grp_project_id = 3, grp_organization = demo_org\<rparr>"

definition demo_link :: "int \<Rightarrow> int \<Rightarrow> group_link" where
  "demo_link ty eid = \<lparr>gl_project_id = 3, gl_group_id = 20, gl_linked_type = ty, gl_linked_id = eid\<rparr>"

definition demo_repo :: "int \<Rightarrow> repository" where
  "demo_repo st =
     \<lparr>repo_id = 30, repo_integration_id = None, repo_provider = Some ''github'', repo_status = st\<rparr>"

definition demo_client :: "string \<Rightarrow> client" where
  "demo_client live_status =
     \<lparr>get_subscription = (\<lambda>i s. Inr [''id'' \<mapsto> s, ''status'' \<mapsto> live_status]),
      update_subscription = (\<lambda>i s. None)\<rparr>"

definition demo_installation :: "bool \<Rightarrow> error option \<Rightarrow> string \<Rightarrow> installation" where
  "demo_installation sync md live_status =
     \<lparr>should_sync = (\<lambda>k. sync),
      create_comment = (\<lambda>k u t. None),
      inst_sync_assignee_outbound = (\<lambda>i u a. None),
      inst_sync_status_outbound = (\<lambda>i r p. None),
      inst_sync_metadata = md,
      has_repo_access = (\<lambda>r. True),
      inst_instance = ''acme.visualstudio.com'',
      get_client = demo_client live_status\<rparr>"

definition demo_env :: "bool \<Rightarrow> installation \<Rightarrow> env" where
  "demo_env flag inst =
     \<lparr>features_has = (\<lambda>f organization. flag),
      get_installation = (\<lambda>i organization_id. inst),
      migrator_run = (\<lambda>i organization. None),
      datetime_now = 100000,
      GroupStatus_UNRESOLVED = 0,
      GroupStatus_RESOLVED = 1,
      LinkedType_issue = 3,
      ObjectStatus_DISABLED = 1,
      ObjectStatus_VISIBLE = 0\<rparr>"

definition demo_world :: world where
  "demo_world =
     \<lparr>external_issues = [demo_issue],
      organizations = [demo_org],
      integrations = [demo_integration None],
      users = [demo_user],
      groups = [demo_group 0],
      group_links = [demo_link 3 10, demo_link 1 11, demo_link 3 12],
      repositories = [demo_repo 1],
      organization_integrations = [\<lparr>oi_organization_id = 1, oi_integration_id = 7\<rparr>],
      trace = [],
      submitted = []\<rparr>"

section \<open>Properties\<close>

subsection \<open>Tables\<close>

lemma objects_get_id: "objects_get idf rows k = Some r \<Longrightarrow> idf r = k"
  by (auto simp: objects_get_def find_Some_iff)

lemma find_map_replace:
  "find (\<lambda>r. idf r = idf row) (map (\<lambda>r. if idf r = idf row then row else r) rows) =
     (if list_ex (\<lambda>r. idf r = idf row) rows then Some row else None)"
  by (induction rows) auto

lemma find_append_new:
  "\<not> list_ex P rows \<Longrightarrow> P row \<Longrightarrow> find P (rows @ [row]) = Some row"
  by (induction rows) auto

lemma objects_get_save: "objects_get idf (objects_save idf row rows) (idf row) = Some row"
  by (simp add: objects_get_def objects_save_def find_map_replace find_append_new)

subsection \<open>Fan-out of status syncs\<close>

lemma submit_status_syncs_eq:
  "submit_status_syncs g ids w = w\<lparr>submitted := submitted w @ map (SyncStatusOutboundJob g) ids\<rparr>"
  by (induction ids arbitrary: w) (simp_all add: apply_async_def)

text \<open>
  Claim C4. \<open>kick_off_status_syncs project_id group_id\<close> returns normally and appends to
  the submitted jobs exactly one \<open>sync_status_outbound\<close> job per \<open>GroupLink\<close> row
  of linked type issue matching the project and the group, carrying the group id and
  the row's linked id: K rows give K jobs, and no row gives no job.
\<close>

theorem kick_off_one_job_per_link:
  "kick_off_status_syncs env p g w =
     Returned (w\<lparr>submitted := submitted w @
        map (\<lambda>l. SyncStatusOutboundJob g (gl_linked_id l))
          (filter (\<lambda>l. gl_project_id l = p \<and> gl_group_id l = g \<and>
                       gl_linked_type l = LinkedType_issue env) (group_links w))\<rparr>)
   \<and> length (submitted (final (kick_off_status_syncs env p g w))) =
       length (submitted w) +
       length (filter (\<lambda>l. gl_project_id l = p \<and> gl_group_id l = g \<and>
                       gl_linked_type l = LinkedType_issue env) (group_links w))"
  by (simp add: kick_off_status_syncs_def submit_status_syncs_eq linked_issue_ids_def comp_def)

subsection \<open>Status sync: the group filter and the feature flag\<close>

text \<open>
  Claim C8. When no group with the given id has status \<open>UNRESOLVED\<close> or
  \<open>RESOLVED\<close> (the group has another status, or does not exist),
  \<open>sync_status_outbound\<close> returns normally and leaves the state as it was: no
  installation call, no analytics record.
\<close>

theorem status_sync_skips_other_statuses:
  assumes "\<forall>g \<in> set (groups w). grp_id g = gid \<longrightarrow>
             grp_status g \<noteq> GroupStatus_UNRESOLVED env \<and> grp_status g \<noteq> GroupStatus_RESOLVED env"
  shows "sync_status_outbound env gid eid w = Returned w"
proof -
  have "group_query env gid w = []"
    using assms by (auto simp: group_query_def filter_empty_conv)
  then show ?thesis
    by (simp add: sync_status_outbound_def first_row_def)
qed

theorem status_sync_skips_other_statuses_witness:
  "sync_status_outbound (demo_env True (demo_installation True None ''active'')) 20 10
     (demo_world\<lparr>groups := [demo_group 2]\<rparr>) = Returned (demo_world\<lparr>groups := [demo_group 2]\<rparr>)
   \<and> sync_status_outbound (demo_env True (demo_installation True None ''active'')) 21 10
     demo_world = Returned demo_world"
  using status_sync_skips_other_statuses
          [of "demo_world\<lparr>groups := [demo_group 2]\<rparr>" 20
              "demo_env True (demo_installation True None ''active'')" 10]
        status_sync_skips_other_statuses
          [of demo_world 21 "demo_env True (demo_installation True None ''active'')" 10]
  by (simp add: demo_world_def demo_group_def demo_env_def)

text \<open>
  Claim C9. In \<open>sync_status_outbound\<close> the feature flag of the group's organization is
  checked before the external issue and the integration are loaded: when the group is
  found and its organization lacks the flag, the task returns normally with the state
  unchanged whatever the \<open>ExternalIssue\<close> and \<open>Integration\<close> tables hold, also when
  they are empty and the external issue id resolves to nothing.
\<close>

theorem status_sync_flag_before_lookups:
  assumes "first_row (group_query env gid w) = Inr g"
      and "\<not> features_has env issue_sync_flag (grp_organization g)"
  shows "sync_status_outbound env gid eid (w\<lparr>external_issues := xs, integrations := ys\<rparr>) =
           Returned (w\<lparr>external_issues := xs, integrations := ys\<rparr>)"
proof -
  have "group_query env gid (w\<lparr>external_issues := xs, integrations := ys\<rparr>) = group_query env gid w"
    by (simp add: group_query_def)
  with assms show ?thesis
    by (simp add: sync_status_outbound_def)
qed

theorem status_sync_flag_before_lookups_witness:
  "sync_status_outbound (demo_env False (demo_installation True None ''active'')) 20 10
     (demo_world\<lparr>external_issues := [], integrations := []\<rparr>) =
   Returned (demo_world\<lparr>external_issues := [], integrations := []\<rparr>)
   \<and> objects_get ei_id (external_issues (demo_world\<lparr>external_issues := [], integrations := []\<rparr>)) 10 = None"
  using status_sync_flag_before_lookups
          [of "demo_env False (demo_installation True None ''active'')" 20 demo_world
              "demo_group 0" 10 "[]" "[]"]
  by (simp add: demo_world_def demo_group_def demo_env_def group_query_def first_row_def
        objects_get_def)

subsection \<open>The feature flag of the issue syncs\<close>

text \<open>
  Claim C1, as stated, fails: with the issue-sync flag off for every organization,
  \<open>sync_metadata\<close> still calls the installation's \<open>sync_metadata\<close> and
  \<open>migrate_repo\<close> still rewrites the repository. Neither task consults the flag.
\<close>

theorem flag_off_sync_metadata_still_calls:
  "(\<forall>organization. \<not> features_has (demo_env False (demo_installation False None ''active''))
        issue_sync_flag organization)
   \<and> sync_metadata (demo_env False (demo_installation False None ''active'')) 7 demo_world =
       Returned (demo_world\<lparr>trace := [SyncMetadata 7]\<rparr>)
   \<and> trace demo_world = []
   \<and> repositories (final (migrate_repo (demo_env False (demo_installation False None ''active''))
        30 7 1 demo_world)) \<noteq> repositories demo_world"
  by (simp add: demo_env_def demo_installation_def demo_world_def sync_metadata_def
        migrate_repo_def objects_get_def objects_save_def emit_def demo_integration_def
        demo_repo_def demo_org_def Let_def)

text \<open>
  Claim C1, amended. For \<open>post_comment\<close>, \<open>sync_assignee_outbound\<close> and
  \<open>sync_status_outbound\<close>: when the issue-sync flag is off for the relevant organization
  (the external issue's organization, or the group's organization for the status sync),
  the task returns normally and leaves the state as it was, so there is no
  installation call, no entity write and no analytics record, whatever the
  installation's \<open>should_sync\<close> would answer.
\<close>

theorem flag_off_is_noop:
  "(objects_get ei_id (external_issues w) eid = Some ei \<and>
    objects_get org_id (organizations w) (ei_organization_id ei) = Some organization \<and>
    \<not> features_has env issue_sync_flag organization \<longrightarrow>
      post_comment env eid data uid w = Returned w \<and>
      sync_assignee_outbound env eid assignee assign w = Returned w)
   \<and> (first_row (group_query env gid w) = Inr g \<and>
       \<not> features_has env issue_sync_flag (grp_organization g) \<longrightarrow>
      sync_status_outbound env gid eid' w = Returned w)"
  by (simp add: post_comment_def sync_assignee_outbound_def sync_status_outbound_def)

theorem flag_off_is_noop_witness:
  "post_comment (demo_env False (demo_installation True None ''active'')) 10
      [''text'' \<mapsto> ''hello''] 5 demo_world = Returned demo_world
   \<and> sync_assignee_outbound (demo_env False (demo_installation True None ''active'')) 10
      (Some 5) True demo_world = Returned demo_world
   \<and> sync_status_outbound (demo_env False (demo_installation True None ''active'')) 20 10
      demo_world = Returned demo_world"
  using flag_off_is_noop
          [of demo_world 10 demo_issue demo_org
              "demo_env False (demo_installation True None ''active'')"
              "[''text'' \<mapsto> ''hello'']" 5 "Some 5" True 20 "demo_group 0" 10]
  by (simp add: demo_world_def demo_env_def demo_issue_def demo_org_def demo_group_def
        objects_get_def group_query_def first_row_def)

subsection \<open>Failures and retries\<close>













subsection \<open>Repository migration\<close>

lemma migrate_repo_saved:
  assumes "objects_get int_id (integrations w) iid = Some integ"
      and "objects_get repo_id (repositories w) rid = Some repo"
      and "has_repo_access (get_installation env integ (Some oid)) repo"
  shows "repositories (final (migrate_repo env rid iid oid w)) =
           objects_save repo_id
             (if repo_status repo = ObjectStatus_DISABLED env
              then repo\<lparr>repo_integration_id := Some iid,
                        repo_provider := Some (''integrations:'' @ int_provider integ),
                        repo_status := ObjectStatus_VISIBLE env\<rparr>
              else repo\<lparr>repo_integration_id := Some iid,
                        repo_provider := Some (''integrations:'' @ int_provider integ)\<rparr>)
             (repositories w)"
  using assms
  by (simp add: migrate_repo_def Let_def emit_def split: option.splits)

lemma migrate_repo_untouched:
  assumes "objects_get int_id (integrations w) iid = None \<or>
           (\<exists>integ. objects_get int_id (integrations w) iid = Some integ \<and>
              (objects_get repo_id (repositories w) rid = None \<or>
               (\<exists>repo. objects_get repo_id (repositories w) rid = Some repo \<and>
                  \<not> has_repo_access (get_installation env integ (Some oid)) repo)))"
  shows "repositories (final (migrate_repo env rid iid oid w)) = repositories w"
  using assms
  by (auto simp: migrate_repo_def Let_def emit_def split: option.splits)

text \<open>
  Claim C7. Given an existing integration, a repository whose status is \<open>DISABLED\<close>
  and an installation that has access to it, \<open>migrate_repo\<close> leaves the stored
  repository with status \<open>VISIBLE\<close>, with the integration's id and with the provider
  \<open>integrations:\<close> followed by the integration's provider. Given a repository in any
  other status, the stored repository keeps its status.
\<close>

theorem migrate_repo_enables_only_disabled:
  "(objects_get int_id (integrations w) iid = Some integ \<and>
    objects_get repo_id (repositories w) rid = Some repo \<and>
    has_repo_access (get_installation env integ (Some oid)) repo \<and>
    repo_status repo = ObjectStatus_DISABLED env \<longrightarrow>
      (\<exists>repo'. objects_get repo_id (repositories (final (migrate_repo env rid iid oid w))) rid =
                  Some repo' \<and>
               repo_status repo' = ObjectStatus_VISIBLE env \<and>
               repo_integration_id repo' = Some (int_id integ) \<and>
               repo_provider repo' = Some (''integrations:'' @ int_provider integ)))
   \<and> (objects_get repo_id (repositories w) rid = Some repo \<and>
       repo_status repo \<noteq> ObjectStatus_DISABLED env \<longrightarrow>
      (\<exists>repo'. objects_get repo_id (repositories (final (migrate_repo env rid iid oid w))) rid =
                  Some repo' \<and>
               repo_status repo' = repo_status repo))"
proof (intro conjI impI; (elim conjE)?)
  assume i: "objects_get int_id (integrations w) iid = Some integ"
    and r: "objects_get repo_id (repositories w) rid = Some repo"
    and a: "has_repo_access (get_installation env integ (Some oid)) repo"
    and d: "repo_status repo = ObjectStatus_DISABLED env"
  let ?repo' = "repo\<lparr>repo_integration_id := Some iid,
                     repo_provider := Some (''integrations:'' @ int_provider integ),
                     repo_status := ObjectStatus_VISIBLE env\<rparr>"
  have "repo_id ?repo' = rid"
    using objects_get_id [OF r] by simp
  then have "objects_get repo_id (repositories (final (migrate_repo env rid iid oid w))) rid =
          Some ?repo'"
    using objects_get_save [of repo_id ?repo' "repositories w"]
    by (simp add: migrate_repo_saved [OF i r a] d)
  moreover have "int_id integ = iid"
    using objects_get_id [OF i] .
  ultimately show "\<exists>repo'. objects_get repo_id
        (repositories (final (migrate_repo env rid iid oid w))) rid = Some repo' \<and>
      repo_status repo' = ObjectStatus_VISIBLE env \<and>
      repo_integration_id repo' = Some (int_id integ) \<and>
      repo_provider repo' = Some (''integrations:'' @ int_provider integ)"
    by simp
next
  assume r: "objects_get repo_id (repositories w) rid = Some repo"
    and d: "repo_status repo \<noteq> ObjectStatus_DISABLED env"
  show "\<exists>repo'. objects_get repo_id
        (repositories (final (migrate_repo env rid iid oid w))) rid = Some repo' \<and>
      repo_status repo' = repo_status repo"
  proof (cases "objects_get int_id (integrations w) iid")
    case None
    then show ?thesis
      using r by (simp add: migrate_repo_untouched)
  next
    case (Some integ')
    show ?thesis
    proof (cases "has_repo_access (get_installation env integ' (Some oid)) repo")
      case False
      with Some r have "repositories (final (migrate_repo env rid iid oid w)) = repositories w"
        by (intro migrate_repo_untouched) simp
      then show ?thesis
        using r by simp
    next
      case True
      let ?repo' = "repo\<lparr>repo_integration_id := Some iid,
                         repo_provider := Some (''integrations:'' @ int_provider integ')\<rparr>"
      have "repo_id ?repo' = rid"
        using objects_get_id [OF r] by simp
      then have "objects_get repo_id (repositories (final (migrate_repo env rid iid oid w))) rid =
              Some ?repo'"
        using objects_get_save [of repo_id ?repo' "repositories w"]
        by (simp add: migrate_repo_saved [OF Some r True] d)
      then show ?thesis
        by simp
    qed
  qed
qed

theorem migrate_repo_enables_only_disabled_witness:
  "(\<exists>repo'. objects_get repo_id
        (repositories (final (migrate_repo (demo_env True (demo_installation True None ''active''))
           30 7 1 demo_world))) 30 = Some repo' \<and>
      repo_status repo' = 0 \<and> repo_integration_id repo' = Some 7 \<and>
      repo_provider repo' = Some ''integrations:vsts'')
   \<and> (\<exists>repo'. objects_get repo_id
        (repositories (final (migrate_repo (demo_env True (demo_installation True None ''active''))
           30 7 1 (demo_world\<lparr>repositories := [demo_repo 2]\<rparr>)))) 30 = Some repo' \<and>
      repo_status repo' = 2)"
  using migrate_repo_enables_only_disabled
          [where w = demo_world and iid = 7 and integ = "demo_integration None" and rid = 30
             and repo = "demo_repo 1" and oid = 1
             and env = "demo_env True (demo_installation True None ''active'')"]
        migrate_repo_enables_only_disabled
          [where w = "demo_world\<lparr>repositories := [demo_repo 2]\<rparr>" and iid = 7 and rid = 30
             and repo = "demo_repo 2" and oid = 1
             and env = "demo_env True (demo_installation True None ''active'')"]
  by (simp add: demo_world_def demo_env_def demo_installation_def demo_integration_def
        demo_repo_def objects_get_def)

subsection \<open>The subscription sweep and the renewal job\<close>

lemma vsts_check_submitted:
  "submitted (final (snd (vsts_subscription_check env integ oid w))) = submitted w"
  by (simp add: vsts_subscription_check_def Let_def emit_def
        split: option.splits sum.splits)

lemma sweep_loop_submitted:
  "submitted (final (sweep_loop env ui rows w)) = submitted w"
proof (induction rows)
  case Nil
  then show ?case by simp
next
  case (Cons row rows)
  obtain oi integ where row: "row = (oi, integ)" by (cases row)
  show ?case
  proof (cases "check_is_due ui integ")
    case False
    then show ?thesis using Cons row by simp
  next
    case True
    have "submitted (final (snd (vsts_subscription_check env integ (oi_organization_id oi) w)))
            = submitted w"
      by (rule vsts_check_submitted)
    then show ?thesis
      using True row
      by (cases "snd (vsts_subscription_check env integ (oi_organization_id oi) w)") simp_all
  qed
qed

lemma sweep_never_submits:
  "submitted (final (kickoff_vsts_subscription_check env w)) = submitted w"
  by (simp add: kickoff_vsts_subscription_check_def sweep_loop_submitted)

lemma sweep_loop_skips:
  "\<forall>row \<in> set rows. \<not> check_is_due ui (snd row) \<Longrightarrow> sweep_loop env ui rows w = Returned w"
  by (induction rows) auto

text \<open>
  Claim C5, evaluated on the code: one VSTS integration whose subscription has never
  been checked is due, and the sweep submits no job for it. Line 241 runs the check in
  place (the provider is asked for the subscription inside the sweep) and the sweep
  then ends with \<open>AttributeError\<close>.
\<close>

theorem sweep_due_integration_not_submitted:
  "check_is_due (datetime_now (demo_env True (demo_installation True None ''active''))
                   - timedelta_hours 6) (demo_integration None)
   \<and> kickoff_vsts_subscription_check (demo_env True (demo_installation True None ''active''))
       demo_world =
      Raised AttributeError
        (demo_world\<lparr>trace := [GetSubscription ''acme.visualstudio.com'' ''s1'']\<rparr>)
   \<and> submitted (demo_world\<lparr>trace := [GetSubscription ''acme.visualstudio.com'' ''s1'']\<rparr>) = []"
  by (simp add: kickoff_vsts_subscription_check_def vsts_organization_integrations_def
        check_is_due_def vsts_subscription_check_def demo_world_def demo_env_def
        demo_installation_def demo_client_def demo_integration_def demo_subscription_def
        objects_get_def emit_def timedelta_hours_def Let_def)

text \<open>
  Claim C6. With the subscription fetched from the provider: when its status is
  \<open>disabledBySystem\<close> the job calls \<open>update_subscription\<close> right after the read
  and, the call returning, stores the integration with the subscription's check time
  set to now; for any other status the job returns after the single
  \<open>get_subscription\<close> call, with no write and the integration object as it was.
\<close>

theorem renewal_only_when_disabled:
  assumes "md_subscription (int_metadata integ) = Some sub"
      and "sub_id sub = Some sid"
      and "get_subscription (get_client (get_installation env integ (Some oid)))
             (inst_instance (get_installation env integ (Some oid))) sid = Inr live"
      and "live ''status'' = Some st"
  shows "(st = ''disabledBySystem'' \<and>
          update_subscription (get_client (get_installation env integ (Some oid)))
             (inst_instance (get_installation env integ (Some oid))) sid = None \<longrightarrow>
            vsts_subscription_check env integ oid w =
              (integ\<lparr>int_metadata := (int_metadata integ)\<lparr>md_subscription :=
                  Some (sub\<lparr>sub_check := Some (datetime_now env)\<rparr>)\<rparr>\<rparr>,
               Returned (w\<lparr>integrations :=
                  objects_save int_id
                    (integ\<lparr>int_metadata := (int_metadata integ)\<lparr>md_subscription :=
                       Some (sub\<lparr>sub_check := Some (datetime_now env)\<rparr>)\<rparr>\<rparr>)
                    (integrations w),
                  trace := trace w @
                    [GetSubscription (inst_instance (get_installation env integ (Some oid))) sid,
                     UpdateSubscription (inst_instance (get_installation env integ (Some oid))) sid,
                     IntegrationSave
                       (integ\<lparr>int_metadata := (int_metadata integ)\<lparr>md_subscription :=
                          Some (sub\<lparr>sub_check := Some (datetime_now env)\<rparr>)\<rparr>\<rparr>)]\<rparr>)))
       \<and> (st = ''disabledBySystem'' \<longrightarrow>
            take 2 (drop (length (trace w))
              (trace (final (snd (vsts_subscription_check env integ oid w))))) =
              [GetSubscription (inst_instance (get_installation env integ (Some oid))) sid,
               UpdateSubscription (inst_instance (get_installation env integ (Some oid))) sid])
       \<and> (st \<noteq> ''disabledBySystem'' \<longrightarrow>
            vsts_subscription_check env integ oid w =
              (integ,
               Returned (w\<lparr>trace := trace w @
                 [GetSubscription (inst_instance (get_installation env integ (Some oid))) sid]\<rparr>)))"
  using assms
  by (simp add: vsts_subscription_check_def Let_def emit_def split: option.splits)

theorem renewal_only_when_disabled_witness:
  "vsts_subscription_check (demo_env True (demo_installation True None ''disabledBySystem''))
     (demo_integration None) 1 demo_world =
     (demo_integration (Some 100000),
      Returned (demo_world\<lparr>integrations := [demo_integration (Some 100000)],
        trace := [GetSubscription ''acme.visualstudio.com'' ''s1'',
                  UpdateSubscription ''acme.visualstudio.com'' ''s1'',
                  IntegrationSave (demo_integration (Some 100000))]\<rparr>))
   \<and> vsts_subscription_check (demo_env True (demo_installation True None ''active''))
     (demo_integration None) 1 demo_world =
     (demo_integration None,
      Returned (demo_world\<lparr>trace := [GetSubscription ''acme.visualstudio.com'' ''s1'']\<rparr>))"
  using renewal_only_when_disabled
          [where integ = "demo_integration None" and sub = "demo_subscription None"
             and sid = "''s1''" and oid = 1 and w = demo_world
             and env = "demo_env True (demo_installation True None ''disabledBySystem'')"
             and live = "[''id'' \<mapsto> ''s1'', ''status'' \<mapsto> ''disabledBySystem'']"
             and st = "''disabledBySystem''"]
        renewal_only_when_disabled
          [where integ = "demo_integration None" and sub = "demo_subscription None"
             and sid = "''s1''" and oid = 1 and w = demo_world
             and env = "demo_env True (demo_installation True None ''active'')"
             and live = "[''id'' \<mapsto> ''s1'', ''status'' \<mapsto> ''active'']"
             and st = "''active''"]
  by (simp add: demo_world_def demo_env_def demo_installation_def demo_client_def
        demo_integration_def demo_subscription_def objects_save_def)





end
